theory Spec2Isabelle
  imports Complex_Main
begin

section \<open>Raw data of a device\<close>

text \<open>
  The coordinator hands every device over as a Python dict from field name to a value
  decoded from the vendor's JSON: \<open>None\<close>, a bool, an int, a float, a str, a list or a
  nested dict. A \<open>char\<close> is one character of a Python str; only the characters of the
  8-bit range are represented. Floats are represented by the real number they denote.
\<close>

datatype pyval =
    PNone
  | PBool bool
  | PInt int
  | PFloat real
  | PStr string
  | PList "pyval list"
  | PDict "string \<Rightarrow> pyval option"

type_synonym pydict = "string \<Rightarrow> pyval option"

text \<open>The exceptions that the code of \<open>sensor.py\<close> can raise.\<close>

datatype error = AttributeError | KeyError | TypeError | ValueError

text \<open>\<open>d.get(k)\<close>: the value stored under \<open>k\<close>, \<open>None\<close> when the key is missing.\<close>

definition dict_get :: "pydict \<Rightarrow> string \<Rightarrow> pyval" where
  "dict_get d k = (case d k of None \<Rightarrow> PNone | Some v \<Rightarrow> v)"

text \<open>\<open>d.get(k, default)\<close>.\<close>

definition dict_get_default :: "pydict \<Rightarrow> string \<Rightarrow> pyval \<Rightarrow> pyval" where
  "dict_get_default d k dflt = (case d k of None \<Rightarrow> dflt | Some v \<Rightarrow> v)"

text \<open>\<open>k in d\<close>.\<close>

definition has_key :: "pydict \<Rightarrow> string \<Rightarrow> bool" where
  "has_key d k = (case d k of None \<Rightarrow> False | Some v \<Rightarrow> True)"

text \<open>\<open>v is None\<close> and \<open>isinstance(v, dict)\<close>.\<close>

fun is_none :: "pyval \<Rightarrow> bool" where
  "is_none PNone = True"
| "is_none v = False"


fun is_dict :: "pyval \<Rightarrow> bool" where
  "is_dict (PDict d) = True"
| "is_dict v = False"

text \<open>
  Lists and dicts have no hash: a set membership test or a dict lookup with one of them
  as the key raises \<open>TypeError\<close>.
\<close>

fun hashable :: "pyval \<Rightarrow> bool" where
  "hashable (PList xs) = False"
| "hashable (PDict d) = False"
| "hashable v = True"

text \<open>
  Python's \<open>==\<close> on hashable values: bools, ints and floats compare by their numeric
  value (\<open>True == 1\<close>, \<open>46 == 46.0\<close>), everything else by type and content.
\<close>

fun py_num :: "pyval \<Rightarrow> real option" where
  "py_num (PBool b) = Some (if b then 1 else 0)"
| "py_num (PInt i) = Some (of_int i)"
| "py_num (PFloat r) = Some r"
| "py_num v = None"

fun py_eq :: "pyval \<Rightarrow> pyval \<Rightarrow> bool" where
  "py_eq PNone PNone = True"
| "py_eq (PStr s) (PStr t) = (s = t)"
| "py_eq a b =
     (case py_num a of
        None \<Rightarrow> False
      | Some x \<Rightarrow> (case py_num b of None \<Rightarrow> False | Some y \<Rightarrow> x = y))"

text \<open>\<open>v in s\<close> for a set \<open>s\<close>, given by its elements.\<close>

definition py_set_contains :: "pyval list \<Rightarrow> pyval \<Rightarrow> error + bool" where
  "py_set_contains s v =
     (if hashable v then Inr (list_ex (\<lambda>x. py_eq x v) s) else Inl TypeError)"



section \<open>String methods\<close>

text \<open>\<open>s.strip(chars)\<close>: drop the leading and the trailing characters that are in \<open>chars\<close>.\<close>

definition py_strip :: "string \<Rightarrow> string \<Rightarrow> string" where
  "py_strip chars s =
     rev (dropWhile (\<lambda>c. c \<in> set chars) (rev (dropWhile (\<lambda>c. c \<in> set chars) s)))"

text \<open>\<open>s.split(sep)[0]\<close> for a separator of one character: the text before its first occurrence.\<close>

definition py_split_first :: "char \<Rightarrow> string \<Rightarrow> string" where
  "py_split_first sep s = takeWhile (\<lambda>c. c \<noteq> sep) s"

text \<open>
  \<open>s.upper()\<close>. The ASCII letters are mapped to their capitals. A character outside ASCII
  stays as it is: upper-casing one never gives a string of the unit table below.
\<close>

definition upper_char :: "char \<Rightarrow> char" where
  "upper_char c =
     (case map_of (zip ''abcdefghijklmnopqrstuvwxyz'' ''ABCDEFGHIJKLMNOPQRSTUVWXYZ'') c of
        None \<Rightarrow> c | Some u \<Rightarrow> u)"

definition py_upper :: "string \<Rightarrow> string" where
  "py_upper s = map upper_char s"

text \<open>\<open>int(s)\<close> on a string of decimal digits, surrounded by blanks or not.\<close>

definition digit_val :: "char \<Rightarrow> nat" where
  "digit_val c = (case map_of (zip ''0123456789'' [0, 1, 2, 3, 4, 5, 6, 7, 8, 9]) c of
                    None \<Rightarrow> 0 | Some d \<Rightarrow> d)"

definition py_int :: "string \<Rightarrow> nat" where
  "py_int s = foldl (\<lambda>n c. 10 * n + digit_val c) 0 (py_strip '' '' s)"

section \<open>datetime.strptime with the format of the timestamp fields\<close>

text \<open>
  \<open>datetime.datetime.strptime(s, "%Y-%m-%dT%H:%M:%S")\<close> belongs to the Python library. It
  turns the format into a regular expression, one group of alternatives for every
  directive, matches it at the start of \<open>s\<close> ignoring case, refuses a match that leaves
  text over, and builds the date from the numbers of the groups. A character class is
  given by the list of its characters.
\<close>

datatype re_item = Lit string | Grp "string list list"

fun match_seq :: "string list \<Rightarrow> string \<Rightarrow> (string \<times> string) option" where
  "match_seq [] s = Some ([], s)"
| "match_seq (cls # clss) [] = None"
| "match_seq (cls # clss) (c # s) =
     (if c \<in> set cls
      then (case match_seq clss s of None \<Rightarrow> None | Some (m, r) \<Rightarrow> Some (c # m, r))
      else None)"

text \<open>
  Backtracking match: the alternatives of a group are tried in their order, and an
  alternative is given up when the rest of the expression does not match after it. The
  result is the text of every group and the text that follows the match.
\<close>

fun item_size :: "re_item \<Rightarrow> nat" where
  "item_size (Lit cls) = 1"
| "item_size (Grp alts) = Suc (length alts)"

function (sequential) re_match :: "re_item list \<Rightarrow> string \<Rightarrow> (string list \<times> string) option" where
  "re_match [] s = Some ([], s)"
| "re_match (Lit cls # items) [] = None"
| "re_match (Lit cls # items) (c # s) = (if c \<in> set cls then re_match items s else None)"
| "re_match (Grp [] # items) s = None"
| "re_match (Grp (alt # alts) # items) s =
     (case match_seq alt s of
        None \<Rightarrow> re_match (Grp alts # items) s
      | Some (m, r) \<Rightarrow>
          (case re_match items r of
             None \<Rightarrow> re_match (Grp alts # items) s
           | Some (caps, rest) \<Rightarrow> Some (m # caps, rest)))"
  by pat_completeness auto
termination
  by (relation "measure (\<lambda>(items, s). sum_list (map item_size items))") auto

definition digit :: string where
  "digit = ''0123456789''"

text \<open>
  The groups of \<open>%Y\<close>, \<open>%m\<close>, \<open>%d\<close>, \<open>%H\<close>, \<open>%M\<close> and \<open>%S\<close>, as the library writes them:
  \<open>\d\d\d\d\<close>, \<open>1[0-2]|0[1-9]|[1-9]\<close>, \<open>3[0-1]|[1-2]\d|0[1-9]|[1-9]| [1-9]\<close>,
  \<open>2[0-3]|[0-1]\d|\d\<close>, \<open>[0-5]\d|\d\<close> and \<open>6[0-1]|[0-5]\d|\d\<close>.
\<close>

definition format_regex :: "re_item list" where
  "format_regex =
     [Grp [[digit, digit, digit, digit]],
      Lit ''-'',
      Grp [[''1'', ''012''], [''0'', ''123456789''], [''123456789'']],
      Lit ''-'',
      Grp [[''3'', ''01''], [''12'', digit], [''0'', ''123456789''], [''123456789''],
           ['' '', ''123456789'']],
      Lit ''Tt'',
      Grp [[''2'', ''0123''], [''01'', digit], [digit]],
      Lit '':'',
      Grp [[''012345'', digit], [digit]],
      Lit '':'',
      Grp [[''6'', ''01''], [''012345'', digit], [digit]]]"

datatype tzinfo = UTC

record datetime =
  year :: nat
  month :: nat
  day :: nat
  hour :: nat
  minute :: nat
  second :: nat
  microsecond :: nat
  tzinfo :: "tzinfo option"

definition is_leap :: "nat \<Rightarrow> bool" where
  "is_leap y = (y mod 4 = 0 \<and> (y mod 100 \<noteq> 0 \<or> y mod 400 = 0))"

definition days_in_month :: "nat \<Rightarrow> nat \<Rightarrow> nat" where
  "days_in_month y m =
     (if m = 2 then (if is_leap y then 29 else 28)
      else if m = 4 \<or> m = 6 \<or> m = 9 \<or> m = 11 then 30 else 31)"

text \<open>
  The date is refused when the year is 0, when the month has no such day, and when the
  second is 60 or 61; the expression has already bounded the other fields. Every refusal
  is a \<open>ValueError\<close>.
\<close>

definition strptime :: "string \<Rightarrow> error + datetime" where
  "strptime s =
     (case re_match format_regex s of
        None \<Rightarrow> Inl ValueError
      | Some (caps, rest) \<Rightarrow>
          (if rest \<noteq> [] then Inl ValueError
           else (case map py_int caps of
                   [y, m, d, H, M, S] \<Rightarrow>
                     (if y < 1 \<or> days_in_month y m < d \<or> 59 < S then Inl ValueError
                      else Inr \<lparr>year = y, month = m, day = d, hour = H, minute = M,
                                second = S, microsecond = 0, tzinfo = None\<rparr>)
                 | _ \<Rightarrow> Inl ValueError)))"

section \<open>Constants of the module\<close>

definition KEY_VALUE :: string where "KEY_VALUE = ''value''"
definition KEY_STATUS :: string where "KEY_STATUS = ''status''"
definition KEY_UNIT :: string where "KEY_UNIT = ''Unit''"
definition KEY_MB_MODEL :: string where "KEY_MB_MODEL = ''mb_model''"
definition LIFE_SENSOR_KEY :: string where "LIFE_SENSOR_KEY = ''life''"

text \<open>The set of the DETECT series models, and the keys skipped for them.\<close>

definition MB_MODELS_DETECT_SERIES :: "pyval list" where
  "MB_MODELS_DETECT_SERIES = [PInt 48, PInt 46]"

definition SKIP_SIMPLE_SENSOR_KEYS :: "string list" where
  "SKIP_SIMPLE_SENSOR_KEYS = [''batt_volt'', ''battery_voltage'']"

text \<open>The units, device classes and categories of the host framework that the module names.\<close>

datatype unit_of_measurement =
    CELSIUS | FAHRENHEIT | PERCENTAGE | PA
  | CONCENTRATION_PARTS_PER_BILLION | CONCENTRATION_PARTS_PER_MILLION
  | VOLT | DAYS | WEEKS | HOURS | SIGNAL_STRENGTH_DECIBELS

datatype device_class =
    TIMESTAMP | ENUM | VOLTAGE | SIGNAL_STRENGTH | TEMPERATURE | HUMIDITY
  | ATMOSPHERIC_PRESSURE | VOLATILE_ORGANIC_COMPOUNDS_PARTS | AQI | CO2

datatype state_class = MEASUREMENT

datatype entity_category = DIAGNOSTIC



section \<open>Entity descriptions\<close>

record SensorEntityDescription =
  key :: string
  icon :: "string option"
  name :: string
  device_class :: "device_class option"
  state_class :: "state_class option"
  native_unit_of_measurement :: "unit_of_measurement option"
  suggested_display_precision :: "nat option"
  entity_category :: "entity_category option"
  entity_registry_enabled_default :: bool
  options :: "string list option"

text \<open>A description with the given key and name and the defaults of every other field.\<close>

definition describe :: "string \<Rightarrow> string \<Rightarrow> SensorEntityDescription" where
  "describe k n =
     \<lparr>key = k, icon = None, name = n, device_class = None, state_class = None,
      native_unit_of_measurement = None, suggested_display_precision = None,
      entity_category = None, entity_registry_enabled_default = True, options = None\<rparr>"

definition TIMESTAMP_DESCRIPTIONS :: "SensorEntityDescription list" where
  "TIMESTAMP_DESCRIPTIONS =
     [(describe ''last_seen'' ''Last Seen'')
        \<lparr>icon := Some ''mdi:home-clock'', device_class := Some TIMESTAMP\<rparr>,
      (describe ''last_test_time'' ''Last Test Time'')
        \<lparr>icon := Some ''mdi:home-clock'', device_class := Some TIMESTAMP\<rparr>,
      (describe ''iaq_last_test_time'' ''IAQ Last Test Time'')
        \<lparr>icon := Some ''mdi:home-clock'', device_class := Some TIMESTAMP\<rparr>]"

definition SENSOR_DESCRIPTIONS :: "SensorEntityDescription list" where
  "SENSOR_DESCRIPTIONS =
     [(describe ''overall_iaq_status'' ''Overall Air Quality'')
        \<lparr>icon := Some ''mdi:air-filter'', device_class := Some ENUM,
         options := Some [''Very Bad'', ''Bad'', ''Moderate'', ''Good'']\<rparr>,
      (describe ''smoke_level'' ''Smoke Level'')
        \<lparr>icon := Some ''mdi:smoke'', state_class := Some MEASUREMENT\<rparr>,
      (describe ''co_level'' ''CO Level'')
        \<lparr>icon := Some ''mdi:molecule-co'', state_class := Some MEASUREMENT\<rparr>,
      (describe ''batt_volt'' ''Battery Voltage'')
        \<lparr>icon := Some ''mdi:battery'', state_class := Some MEASUREMENT,
         device_class := Some VOLTAGE, native_unit_of_measurement := Some VOLT,
         suggested_display_precision := Some 2\<rparr>,
      (describe LIFE_SENSOR_KEY ''Weeks to replace'')
        \<lparr>icon := Some ''mdi:calendar-clock'', state_class := Some MEASUREMENT,
         native_unit_of_measurement := Some WEEKS\<rparr>,
      (describe ''ap_rssi'' ''Signal strength'')
        \<lparr>icon := Some ''mdi:wifi-strength-3'', device_class := Some SIGNAL_STRENGTH,
         state_class := Some MEASUREMENT, entity_category := Some DIAGNOSTIC,
         native_unit_of_measurement := Some SIGNAL_STRENGTH_DECIBELS,
         entity_registry_enabled_default := False\<rparr>,
      (describe ''ssid'' ''SSID'')
        \<lparr>icon := Some ''mdi:wifi'', entity_category := Some DIAGNOSTIC,
         entity_registry_enabled_default := False\<rparr>,
      (describe ''alarm_interval'' ''Alarm Interval'')
        \<lparr>icon := Some ''mdi:alarm-check'', entity_category := Some DIAGNOSTIC\<rparr>,
      (describe ''alarm_reset_time'' ''Alarm Reset Time'')
        \<lparr>icon := Some ''mdi:alarm-snooze'', entity_category := Some DIAGNOSTIC\<rparr>,
      (describe ''battery_level'' ''Battery Level'')
        \<lparr>icon := Some ''mdi:battery-high'', entity_category := Some DIAGNOSTIC,
         state_class := Some MEASUREMENT\<rparr>,
      (describe ''battery_voltage'' ''Battery Voltage'')
        \<lparr>icon := Some ''mdi:battery'', native_unit_of_measurement := Some VOLT,
         suggested_display_precision := Some 2, entity_category := Some DIAGNOSTIC,
         state_class := Some MEASUREMENT, device_class := Some VOLTAGE\<rparr>,
      (describe ''checkin_interval'' ''Checkin Interval'')
        \<lparr>icon := Some ''mdi:clock-check'', entity_category := Some DIAGNOSTIC,
         state_class := Some MEASUREMENT, native_unit_of_measurement := Some HOURS\<rparr>,
      (describe ''hold_alarm_time'' ''Alarm Hold Time'')
        \<lparr>icon := Some ''mdi:alarm-plus'', entity_category := Some DIAGNOSTIC\<rparr>,
      (describe ''rapid_temperature_variation_status'' ''Temperature Variation Status'')
        \<lparr>icon := Some ''mdi:swap-vertical-variant'', entity_category := Some DIAGNOSTIC\<rparr>,
      (describe ''temperature_variation_value'' ''Temperature Variation'')
        \<lparr>icon := Some ''mdi:swap-vertical-variant'', entity_category := Some DIAGNOSTIC\<rparr>,
      (describe ''temperature'' ''Temperature'')
        \<lparr>icon := Some ''mdi:home-thermometer'', device_class := Some TEMPERATURE,
         state_class := Some MEASUREMENT, native_unit_of_measurement := Some FAHRENHEIT\<rparr>]"

text \<open>
  The name of the last description is written in the source with the six characters
  \<open>C\<close>, \<open>O\<close>, U+00E2, U+201A, U+201A and a blank before \<open>Level\<close>; they are given here by
  the bytes of their UTF-8 encoding.
\<close>

definition SENSOR_MEASUREMENT_DESCRIPTIONS :: "SensorEntityDescription list" where
  "SENSOR_MEASUREMENT_DESCRIPTIONS =
     [(describe ''iaq_temperature'' ''Indoor Temperature'')
        \<lparr>device_class := Some TEMPERATURE, state_class := Some MEASUREMENT\<rparr>,
      (describe ''humidity'' ''Humidity'')
        \<lparr>device_class := Some HUMIDITY, state_class := Some MEASUREMENT\<rparr>,
      (describe ''hpa'' ''Air Pressure'')
        \<lparr>device_class := Some ATMOSPHERIC_PRESSURE, state_class := Some MEASUREMENT\<rparr>,
      (describe ''tvoc'' ''Total VOC'')
        \<lparr>device_class := Some VOLATILE_ORGANIC_COMPOUNDS_PARTS,
         state_class := Some MEASUREMENT\<rparr>,
      (describe ''iaq'' ''Indoor Air Quality'')
        \<lparr>device_class := Some AQI, state_class := Some MEASUREMENT\<rparr>,
      (describe ''co2''
         (''CO'' @ map char_of [0xC3, 0xA2, 0xE2, 0x80, 0x9A, 0xE2, 0x80, 0x9A :: nat]
            @ '' Level''))
        \<lparr>device_class := Some CO2, state_class := Some MEASUREMENT\<rparr>]"

section \<open>Device enumeration\<close>

text \<open>
  A sensor entity is built from the coordinator, the identifier of its device and an
  entity description. There is one coordinator, so an entity is given by its class, the
  device identifier and the description. The constructor is the one of the base class
  \<open>KiddeEntity\<close>, which is outside this module; it is taken to store its arguments.
\<close>

datatype entity =
    KiddeSensorTimestampEntity int SensorEntityDescription
  | KiddeSensorLifeEntity int SensorEntityDescription
  | KiddeSensorEntity int SensorEntityDescription
  | KiddeSensorMeasurementEntity int SensorEntityDescription

fun entity_device_id :: "entity \<Rightarrow> int" where
  "entity_device_id (KiddeSensorTimestampEntity i d) = i"
| "entity_device_id (KiddeSensorLifeEntity i d) = i"
| "entity_device_id (KiddeSensorEntity i d) = i"
| "entity_device_id (KiddeSensorMeasurementEntity i d) = i"

fun entity_description :: "entity \<Rightarrow> SensorEntityDescription" where
  "entity_description (KiddeSensorTimestampEntity i d) = d"
| "entity_description (KiddeSensorLifeEntity i d) = d"
| "entity_description (KiddeSensorEntity i d) = d"
| "entity_description (KiddeSensorMeasurementEntity i d) = d"

text \<open>The loop over the timestamp descriptions; \<open>sensors\<close> is the list built so far.\<close>

fun timestamp_loop ::
  "SensorEntityDescription list \<Rightarrow> int \<Rightarrow> pydict \<Rightarrow> entity list \<Rightarrow> entity list" where
  "timestamp_loop [] device_id device_data sensors = sensors"
| "timestamp_loop (ed # eds) device_id device_data sensors =
     timestamp_loop eds device_id device_data
       (if has_key device_data (key ed)
        then sensors @ [KiddeSensorTimestampEntity device_id ed] else sensors)"

text \<open>
  The loop over the sensor descriptions. The life key is passed over. For a key of the
  skip set the model is looked up in the set of the DETECT models, which raises for a
  model that cannot be hashed; the second operand of \<open>and\<close> is not evaluated for the
  other keys.
\<close>

fun sensor_loop ::
  "SensorEntityDescription list \<Rightarrow> int \<Rightarrow> pydict \<Rightarrow> pyval \<Rightarrow> entity list
     \<Rightarrow> error + entity list" where
  "sensor_loop [] device_id device_data mb_model sensors = Inr sensors"
| "sensor_loop (ed # eds) device_id device_data mb_model sensors =
     (if key ed = LIFE_SENSOR_KEY
      then sensor_loop eds device_id device_data mb_model sensors
      else (case (if key ed \<in> set SKIP_SIMPLE_SENSOR_KEYS
                  then py_set_contains MB_MODELS_DETECT_SERIES mb_model
                  else Inr False) of
              Inl e \<Rightarrow> Inl e
            | Inr True \<Rightarrow> sensor_loop eds device_id device_data mb_model sensors
            | Inr False \<Rightarrow>
                sensor_loop eds device_id device_data mb_model
                  (if has_key device_data (key ed)
                   then sensors @ [KiddeSensorEntity device_id ed] else sensors)))"

fun measurement_loop ::
  "SensorEntityDescription list \<Rightarrow> int \<Rightarrow> pydict \<Rightarrow> entity list \<Rightarrow> entity list" where
  "measurement_loop [] device_id device_data sensors = sensors"
| "measurement_loop (ed # eds) device_id device_data sensors =
     measurement_loop eds device_id device_data
       (if has_key device_data (key ed)
        then sensors @ [KiddeSensorMeasurementEntity device_id ed] else sensors)"

text \<open>The body of the loop over the devices.\<close>

definition setup_device ::
  "SensorEntityDescription option \<Rightarrow> int \<Rightarrow> pydict \<Rightarrow> entity list \<Rightarrow> error + entity list" where
  "setup_device life_description device_id device_data sensors =
     (let mb_model = dict_get device_data KEY_MB_MODEL;
          sensors1 = timestamp_loop TIMESTAMP_DESCRIPTIONS device_id device_data sensors;
          sensors2 =
            (case life_description of
               None \<Rightarrow> sensors1
             | Some ld \<Rightarrow>
                 (if has_key device_data LIFE_SENSOR_KEY
                  then sensors1 @ [KiddeSensorLifeEntity device_id ld] else sensors1))
      in case sensor_loop SENSOR_DESCRIPTIONS device_id device_data mb_model sensors2 of
           Inl e \<Rightarrow> Inl e
         | Inr sensors3 \<Rightarrow>
             Inr (measurement_loop SENSOR_MEASUREMENT_DESCRIPTIONS device_id device_data
                    sensors3))"

fun devices_loop ::
  "SensorEntityDescription option \<Rightarrow> (int \<times> pydict) list \<Rightarrow> entity list
     \<Rightarrow> error + entity list" where
  "devices_loop life_description [] sensors = Inr sensors"
| "devices_loop life_description ((device_id, device_data) # devices) sensors =
     (case setup_device life_description device_id device_data sensors of
        Inl e \<Rightarrow> Inl e
      | Inr sensors' \<Rightarrow> devices_loop life_description devices sensors')"

text \<open>
  \<open>async_setup_entry\<close>: \<open>devices\<close> are the items of \<open>coordinator.data.devices\<close> in their
  order. The result is the list handed to \<open>async_add_devices\<close>; when an exception is
  raised, no entity is added.
\<close>

definition async_setup_entry :: "(int \<times> pydict) list \<Rightarrow> error + entity list" where
  "async_setup_entry devices =
     (let life_description = find (\<lambda>d. key d = LIFE_SENSOR_KEY) SENSOR_DESCRIPTIONS
      in devices_loop life_description devices [])"

section \<open>KiddeSensorTimestampEntity\<close>

text \<open>
  \<open>native_value\<close> of a timestamp sensor. \<open>kidde_device\<close> is the raw data of the sensor's
  device, the property of the base class. A value that is not a str has no method
  \<open>strip\<close>, and the \<open>AttributeError\<close> is raised outside the \<open>try\<close>.
\<close>

definition timestamp_native_value ::
  "pydict \<Rightarrow> SensorEntityDescription \<Rightarrow> error + datetime option" where
  "timestamp_native_value kidde_device description =
     (let val = dict_get kidde_device (key description) in
      if is_none val then Inr None
      else (case val of
              PStr s \<Rightarrow>
                (let stripped = py_split_first CHR ''.'' (py_strip ''Z'' s) in
                 case strptime stripped of
                   Inr dt \<Rightarrow> Inr (Some (dt\<lparr>tzinfo := Some UTC\<rparr>))
                 | Inl e \<Rightarrow> Inr None)
            | _ \<Rightarrow> Inl AttributeError))"

section \<open>KiddeSensorLifeEntity\<close>




section \<open>KiddeSensorEntity\<close>

definition sensor_native_value :: "pydict \<Rightarrow> SensorEntityDescription \<Rightarrow> pyval" where
  "sensor_native_value kidde_device description = dict_get kidde_device (key description)"

section \<open>KiddeSensorMeasurementEntity\<close>

definition measurement_native_value :: "pydict \<Rightarrow> SensorEntityDescription \<Rightarrow> pyval" where
  "measurement_native_value kidde_device description =
     (case dict_get kidde_device (key description) of
        PDict entity_dict \<Rightarrow> dict_get entity_dict KEY_VALUE
      | _ \<Rightarrow> PNone)"

text \<open>The \<open>match\<close> statement on the upper-cased unit code.\<close>

definition match_unit :: "string \<Rightarrow> unit_of_measurement option" where
  "match_unit entity_unit =
     (if entity_unit = ''C'' then Some CELSIUS
      else if entity_unit = ''F'' then Some FAHRENHEIT
      else if entity_unit = ''%RH'' then Some PERCENTAGE
      else if entity_unit = ''HPA'' then Some PA
      else if entity_unit = ''PPB'' then Some CONCENTRATION_PARTS_PER_BILLION
      else if entity_unit = ''PPM'' then Some CONCENTRATION_PARTS_PER_MILLION
      else if entity_unit = ''V'' then Some VOLT
      else None)"

text \<open>
  \<open>native_unit_of_measurement\<close>: a unit code that is stored and is not a str has no
  method \<open>upper\<close>.
\<close>

definition measurement_native_unit_of_measurement ::
  "pydict \<Rightarrow> SensorEntityDescription \<Rightarrow> error + unit_of_measurement option" where
  "measurement_native_unit_of_measurement kidde_device description =
     (case dict_get kidde_device (key description) of
        PDict entity_dict \<Rightarrow>
          (case dict_get_default entity_dict KEY_UNIT (PStr []) of
             PStr u \<Rightarrow> Inr (match_unit (py_upper u))
           | _ \<Rightarrow> Inl AttributeError)
      | _ \<Rightarrow> Inr None)"

definition measurement_extra_state_attributes ::
  "pydict \<Rightarrow> SensorEntityDescription \<Rightarrow> pydict" where
  "measurement_extra_state_attributes kidde_device description =
     (case dict_get kidde_device (key description) of
        PDict entity_dict \<Rightarrow> [''Status'' \<mapsto> dict_get entity_dict KEY_STATUS]
      | _ \<Rightarrow> [''Status'' \<mapsto> PNone])"

section \<open>The timestamp renderer in the words of the specification\<close>

text \<open>
  The specification describes the renderer of a timestamp string as: strip the trailing
  zone designator, discard what follows the first period, parse the rest against the
  pattern, tag the result as UTC, and give "unknown" when the parse fails.
  \<open>claimed_timestamp_parse\<close> follows these words, with \<open>None\<close> for "unknown".
\<close>

definition spec_strip_trailing_zone :: "string \<Rightarrow> string" where
  "spec_strip_trailing_zone s = (if s \<noteq> [] \<and> last s = CHR ''Z'' then butlast s else s)"

definition claimed_timestamp_parse :: "string \<Rightarrow> datetime option" where
  "claimed_timestamp_parse s =
     (case strptime (py_split_first CHR ''.'' (spec_strip_trailing_zone s)) of
        Inl e \<Rightarrow> None
      | Inr dt \<Rightarrow> Some (dt\<lparr>tzinfo := Some UTC\<rparr>))"

text \<open>
  The same description with one change: every \<open>Z\<close> at the start and at the end of the
  string is removed.
\<close>

definition amended_timestamp_parse :: "string \<Rightarrow> datetime option" where
  "amended_timestamp_parse s =
     (let no_zone = rev (dropWhile (\<lambda>c. c = CHR ''Z'') (rev (dropWhile (\<lambda>c. c = CHR ''Z'') s)));
          prefix = takeWhile (\<lambda>c. c \<noteq> CHR ''.'') no_zone
      in case strptime prefix of
           Inl e \<Rightarrow> None
         | Inr dt \<Rightarrow> Some (dt\<lparr>tzinfo := Some UTC\<rparr>))"

section \<open>The unit table in the words of the specification\<close>

text \<open>The fixed table of the specification, from upper-case unit code to unit.\<close>

definition SPEC_UNIT_TABLE :: "(string \<times> unit_of_measurement) list" where
  "SPEC_UNIT_TABLE =
     [(''C'', CELSIUS), (''F'', FAHRENHEIT), (''%RH'', PERCENTAGE), (''HPA'', PA),
      (''PPB'', CONCENTRATION_PARTS_PER_BILLION), (''PPM'', CONCENTRATION_PARTS_PER_MILLION),
      (''V'', VOLT)]"

section \<open>The entities of a device in closed form\<close>

text \<open>
  The skip rule of the sensor loop: the key is in the skip set and the model is found in
  the set of the DETECT models.
\<close>

definition skipped :: "pyval \<Rightarrow> SensorEntityDescription \<Rightarrow> bool" where
  "skipped mb_model ed =
     (key ed \<in> set SKIP_SIMPLE_SENSOR_KEYS
      \<and> py_set_contains MB_MODELS_DETECT_SERIES mb_model = Inr True)"

text \<open>
  What one pass of the device loop appends when no exception is raised, and what the
  whole enumeration returns then. The loops are shown below to compute these lists.
\<close>

definition device_entities :: "int \<Rightarrow> pydict \<Rightarrow> entity list" where
  "device_entities device_id device_data =
     map (KiddeSensorTimestampEntity device_id)
       (filter (\<lambda>ed. has_key device_data (key ed)) TIMESTAMP_DESCRIPTIONS)
     @ (case find (\<lambda>d. key d = LIFE_SENSOR_KEY) SENSOR_DESCRIPTIONS of
          None \<Rightarrow> []
        | Some ld \<Rightarrow>
            (if has_key device_data LIFE_SENSOR_KEY
             then [KiddeSensorLifeEntity device_id ld] else []))
     @ map (KiddeSensorEntity device_id)
         (filter (\<lambda>ed. key ed \<noteq> LIFE_SENSOR_KEY
                       \<and> \<not> skipped (dict_get device_data KEY_MB_MODEL) ed
                       \<and> has_key device_data (key ed)) SENSOR_DESCRIPTIONS)
     @ map (KiddeSensorMeasurementEntity device_id)
         (filter (\<lambda>ed. has_key device_data (key ed)) SENSOR_MEASUREMENT_DESCRIPTIONS)"

definition all_entities :: "(int \<times> pydict) list \<Rightarrow> entity list" where
  "all_entities devices = concat (map (\<lambda>(i, dd). device_entities i dd) devices)"

section \<open>Two example devices\<close>

text \<open>
  A detector of the DETECT series (model 46) that reports a zero battery voltage, and a
  detector that reports no model, with a battery voltage and a humidity measurement.
\<close>

definition example_detect_device :: pydict where
  "example_detect_device =
     [''last_seen'' \<mapsto> PStr ''2024-06-22T16:00:19Z'', ''life'' \<mapsto> PInt 3650,
      ''batt_volt'' \<mapsto> PInt 0, ''mb_model'' \<mapsto> PInt 46]"

definition example_other_device :: pydict where
  "example_other_device =
     [''life'' \<mapsto> PInt 500, ''batt_volt'' \<mapsto> PFloat 3,
      ''humidity'' \<mapsto> PDict [''value'' \<mapsto> PInt 45, ''status'' \<mapsto> PStr ''Good'',
                                ''Unit'' \<mapsto> PStr ''%RH'']]"

definition example_devices :: "(int \<times> pydict) list" where
  "example_devices = [(1, example_detect_device), (2, example_other_device)]"

section \<open>Properties of the timestamp renderer\<close>

lemmas strptime_eval = strptime_def format_regex_def digit_def py_int_def digit_val_def
  days_in_month_def is_leap_def py_strip_def

lemmas timestamp_eval = timestamp_native_value_def dict_get_def py_split_first_def strptime_eval

text \<open>Stripping one character: any number of copies at both ends goes away.\<close>

lemma py_strip_replicate:
  "py_strip [z] (replicate m z @ s @ replicate n z) = py_strip [z] s"
proof -
  let ?P = "\<lambda>c. c \<in> set [z]"
  have front: "dropWhile ?P (replicate m z @ s @ replicate n z) = dropWhile ?P (s @ replicate n z)"
    by (rule dropWhile_append2) simp
  show ?thesis
  proof (cases "\<forall>c\<in>set s. ?P c")
    case True
    then have "\<forall>c\<in>set (s @ replicate n z). ?P c" by auto
    then have "dropWhile ?P (s @ replicate n z) = []"
      by (simp only: dropWhile_eq_Nil_conv)
    moreover from True have "dropWhile ?P s = []"
      by (simp only: dropWhile_eq_Nil_conv)
    ultimately show ?thesis
      by (simp only: py_strip_def front rev.simps dropWhile.simps)
  next
    case False
    then obtain c where "c \<in> set s" "\<not> ?P c" by blast
    then have "dropWhile ?P (s @ replicate n z) = dropWhile ?P s @ replicate n z"
      by (rule dropWhile_append1)
    moreover have "dropWhile ?P (replicate n z @ rev (dropWhile ?P s))
                     = dropWhile ?P (rev (dropWhile ?P s))"
      by (rule dropWhile_append2) simp
    ultimately show ?thesis
      by (simp only: py_strip_def front rev_append rev_replicate)
  qed
qed

text \<open>
  Claim C8. The two well-formed strings of the class docstring, one with a fraction of a
  second and one without, are each parsed to the instant they denote, cut to whole
  seconds (the microsecond is 0) and tagged UTC, whatever else the device holds.
\<close>

theorem timestamp_well_formed_parsed:
  "timestamp_native_value (kd(key d \<mapsto> PStr ''2024-06-14T03:40:39.667544824Z'')) d
     = Inr (Some \<lparr>year = 2024, month = 6, day = 14, hour = 3, minute = 40, second = 39,
                   microsecond = 0, tzinfo = Some UTC\<rparr>)
   \<and> timestamp_native_value (kd(key d \<mapsto> PStr ''2024-06-22T16:00:19Z'')) d
     = Inr (Some \<lparr>year = 2024, month = 6, day = 22, hour = 16, minute = 0, second = 19,
                   microsecond = 0, tzinfo = Some UTC\<rparr>)"
  by (simp add: timestamp_eval)

theorem timestamp_well_formed_parsed_witness:
  "timestamp_native_value [''last_seen'' \<mapsto> PStr ''2024-06-14T03:40:39.667544824Z'']
       (describe ''last_seen'' ''Last Seen'')
     = Inr (Some \<lparr>year = 2024, month = 6, day = 14, hour = 3, minute = 40, second = 39,
                   microsecond = 0, tzinfo = Some UTC\<rparr>)
   \<and> timestamp_native_value [''last_seen'' \<mapsto> PStr ''2024-06-22T16:00:19Z'']
       (describe ''last_seen'' ''Last Seen'')
     = Inr (Some \<lparr>year = 2024, month = 6, day = 22, hour = 16, minute = 0, second = 19,
                   microsecond = 0, tzinfo = Some UTC\<rparr>)"
  using timestamp_well_formed_parsed [of Map.empty "describe ''last_seen'' ''Last Seen''"]
  by (simp add: describe_def)

text \<open>
  Claim C10. The renderer removes every \<open>Z\<close> at the start and at the end of the raw
  string before it parses: any number of them in front of and behind a string \<open>s\<close> gives
  the result of \<open>s\<close>. So \<open>Z2024-06-22T16:00:19Z\<close> and \<open>2024-06-22T16:00:19ZZZ\<close> are parsed
  to a UTC datetime and are not "unknown".
\<close>

theorem timestamp_strips_every_outer_Z:
  "timestamp_native_value
       (kd(key d \<mapsto> PStr (replicate m CHR ''Z'' @ s @ replicate n CHR ''Z''))) d
     = timestamp_native_value (kd(key d \<mapsto> PStr s)) d
   \<and> timestamp_native_value (kd(key d \<mapsto> PStr ''Z2024-06-22T16:00:19Z'')) d
     = Inr (Some \<lparr>year = 2024, month = 6, day = 22, hour = 16, minute = 0, second = 19,
                   microsecond = 0, tzinfo = Some UTC\<rparr>)
   \<and> timestamp_native_value (kd(key d \<mapsto> PStr ''2024-06-22T16:00:19ZZZ'')) d
     = Inr (Some \<lparr>year = 2024, month = 6, day = 22, hour = 16, minute = 0, second = 19,
                   microsecond = 0, tzinfo = Some UTC\<rparr>)"
proof (intro conjI)
  show "timestamp_native_value
          (kd(key d \<mapsto> PStr (replicate m CHR ''Z'' @ s @ replicate n CHR ''Z''))) d
        = timestamp_native_value (kd(key d \<mapsto> PStr s)) d"
    by (simp add: timestamp_native_value_def dict_get_def py_strip_replicate)
qed (simp_all add: timestamp_eval)

theorem timestamp_strips_every_outer_Z_witness:
  "timestamp_native_value [''last_seen'' \<mapsto> PStr ''ZZ2024-06-22T16:00:19.5ZZZ'']
       (describe ''last_seen'' ''Last Seen'')
     = Inr (Some \<lparr>year = 2024, month = 6, day = 22, hour = 16, minute = 0, second = 19,
                   microsecond = 0, tzinfo = Some UTC\<rparr>)"
proof -
  have "''ZZ2024-06-22T16:00:19.5ZZZ''
          = replicate 2 CHR ''Z'' @ ''2024-06-22T16:00:19.5'' @ replicate 3 CHR ''Z''"
    by (simp add: numeral_2_eq_2 numeral_3_eq_3)
  moreover have "timestamp_native_value [''last_seen'' \<mapsto> PStr ''2024-06-22T16:00:19.5'']
                   (describe ''last_seen'' ''Last Seen'')
     = Inr (Some \<lparr>year = 2024, month = 6, day = 22, hour = 16, minute = 0, second = 19,
                   microsecond = 0, tzinfo = Some UTC\<rparr>)"
    by (simp add: timestamp_eval describe_def)
  ultimately show ?thesis
    using timestamp_strips_every_outer_Z
            [of Map.empty "describe ''last_seen'' ''Last Seen''" 2 "''2024-06-22T16:00:19.5''" 3]
    by (simp add: describe_def)
qed

text \<open>
  Claim C4, as stated, fails: for a string with a \<open>Z\<close> in front, stripping the trailing
  zone designator leaves a text that does not parse, so the description gives "unknown",
  while the code gives a datetime.
\<close>

theorem timestamp_trailing_strip_counterexample:
  "timestamp_native_value [''last_seen'' \<mapsto> PStr ''ZZ2024-06-22T16:00:19'']
       (describe ''last_seen'' ''Last Seen'')
     = Inr (Some \<lparr>year = 2024, month = 6, day = 22, hour = 16, minute = 0, second = 19,
                   microsecond = 0, tzinfo = Some UTC\<rparr>)
   \<and> claimed_timestamp_parse ''ZZ2024-06-22T16:00:19'' = None"
  by (simp add: timestamp_eval claimed_timestamp_parse_def spec_strip_trailing_zone_def
      describe_def)

text \<open>
  Claim C4, amended. For every read of a timestamp field whose raw value is absent,
  \<open>None\<close> or a string: an absent or \<open>None\<close> value gives "unknown"; a string has every
  \<open>Z\<close> at its start and end removed and everything from the first period on discarded,
  and the rest is parsed against the pattern and tagged UTC; when the parse fails, as for
  \<open>not-a-date\<close>, the result is "unknown". In each of these cases the accessor returns.
\<close>

theorem timestamp_native_value_renders:
  "(kd (key d) = None \<or> kd (key d) = Some PNone \<longrightarrow> timestamp_native_value kd d = Inr None)
   \<and> (kd (key d) = Some (PStr s)
        \<longrightarrow> timestamp_native_value kd d = Inr (amended_timestamp_parse s))
   \<and> timestamp_native_value (kd(key d \<mapsto> PStr ''not-a-date'')) d = Inr None"
proof (intro conjI impI)
  assume "kd (key d) = None \<or> kd (key d) = Some PNone"
  then show "timestamp_native_value kd d = Inr None"
    by (auto simp: timestamp_native_value_def dict_get_def)
next
  assume "kd (key d) = Some (PStr s)"
  then show "timestamp_native_value kd d = Inr (amended_timestamp_parse s)"
    by (simp add: timestamp_native_value_def dict_get_def amended_timestamp_parse_def
        py_strip_def py_split_first_def split: sum.splits)
next
  show "timestamp_native_value (kd(key d \<mapsto> PStr ''not-a-date'')) d = Inr None"
    by (simp add: timestamp_eval)
qed

theorem timestamp_native_value_renders_witness:
  "timestamp_native_value Map.empty (describe ''last_seen'' ''Last Seen'') = Inr None
   \<and> timestamp_native_value [''last_seen'' \<mapsto> PNone] (describe ''last_seen'' ''Last Seen'')
       = Inr None
   \<and> timestamp_native_value [''last_seen'' \<mapsto> PStr ''2024-06-22T16:00:19.25Z'']
         (describe ''last_seen'' ''Last Seen'')
       = Inr (Some \<lparr>year = 2024, month = 6, day = 22, hour = 16, minute = 0, second = 19,
                     microsecond = 0, tzinfo = Some UTC\<rparr>)"
proof -
  have "amended_timestamp_parse ''2024-06-22T16:00:19.25Z''
          = Some \<lparr>year = 2024, month = 6, day = 22, hour = 16, minute = 0, second = 19,
                  microsecond = 0, tzinfo = Some UTC\<rparr>"
    by (simp add: amended_timestamp_parse_def strptime_eval)
  then show ?thesis
    using timestamp_native_value_renders
            [of Map.empty "describe ''last_seen'' ''Last Seen''" "[]"]
          timestamp_native_value_renders
            [of "[''last_seen'' \<mapsto> PNone]" "describe ''last_seen'' ''Last Seen''" "[]"]
          timestamp_native_value_renders
            [of "[''last_seen'' \<mapsto> PStr ''2024-06-22T16:00:19.25Z'']"
                "describe ''last_seen'' ''Last Seen''" "''2024-06-22T16:00:19.25Z''"]
    by (simp add: describe_def)
qed

section \<open>Properties of the measurement sensor\<close>

lemma match_unit_table: "match_unit c = map_of SPEC_UNIT_TABLE c"
  by (simp add: match_unit_def SPEC_UNIT_TABLE_def)

lemma unit_of_str:
  "measurement_native_unit_of_measurement (kd(key d \<mapsto> PDict (ed(KEY_UNIT \<mapsto> PStr u)))) d
     = Inr (match_unit (py_upper u))"
  by (simp add: measurement_native_unit_of_measurement_def dict_get_def dict_get_default_def)

text \<open>
  Claim C5. For a measurement whose nested object holds the unit code \<open>u\<close>, the unit is
  the entry of the upper-cased code in the fixed table: codes that differ only in the
  case of their letters get the same unit (\<open>hpa\<close>, \<open>HPA\<close> and \<open>Hpa\<close> give Pascal), and
  every code outside the table, such as the empty string and \<open>XYZ\<close>, gives no unit, as
  does a nested object without a unit code.
\<close>

theorem unit_code_translation:
  "measurement_native_unit_of_measurement (kd(key d \<mapsto> PDict (ed(KEY_UNIT \<mapsto> PStr u)))) d
     = Inr (map_of SPEC_UNIT_TABLE (py_upper u))
   \<and> (py_upper u = py_upper u' \<longrightarrow>
        measurement_native_unit_of_measurement (kd(key d \<mapsto> PDict (ed(KEY_UNIT \<mapsto> PStr u)))) d
        = measurement_native_unit_of_measurement (kd(key d \<mapsto> PDict (ed(KEY_UNIT \<mapsto> PStr u')))) d)
   \<and> (py_upper u \<notin> {''C'', ''F'', ''%RH'', ''HPA'', ''PPB'', ''PPM'', ''V''} \<longrightarrow>
        measurement_native_unit_of_measurement (kd(key d \<mapsto> PDict (ed(KEY_UNIT \<mapsto> PStr u)))) d
        = Inr None)
   \<and> measurement_native_unit_of_measurement (kd(key d \<mapsto> PDict (ed(KEY_UNIT \<mapsto> PStr ''hpa'')))) d = Inr (Some PA)
   \<and> measurement_native_unit_of_measurement (kd(key d \<mapsto> PDict (ed(KEY_UNIT \<mapsto> PStr ''HPA'')))) d = Inr (Some PA)
   \<and> measurement_native_unit_of_measurement (kd(key d \<mapsto> PDict (ed(KEY_UNIT \<mapsto> PStr ''Hpa'')))) d = Inr (Some PA)
   \<and> measurement_native_unit_of_measurement (kd(key d \<mapsto> PDict (ed(KEY_UNIT \<mapsto> PStr [])))) d = Inr None
   \<and> measurement_native_unit_of_measurement (kd(key d \<mapsto> PDict (ed(KEY_UNIT \<mapsto> PStr ''XYZ'')))) d = Inr None
   \<and> (ed KEY_UNIT = None \<longrightarrow> measurement_native_unit_of_measurement (kd(key d \<mapsto> PDict ed)) d = Inr None)"
proof (intro conjI impI)
  show "measurement_native_unit_of_measurement (kd(key d \<mapsto> PDict (ed(KEY_UNIT \<mapsto> PStr u)))) d
     = Inr (map_of SPEC_UNIT_TABLE (py_upper u))"
    by (simp only: unit_of_str match_unit_table)
next
  assume "py_upper u = py_upper u'"
  then show "measurement_native_unit_of_measurement (kd(key d \<mapsto> PDict (ed(KEY_UNIT \<mapsto> PStr u)))) d
        = measurement_native_unit_of_measurement (kd(key d \<mapsto> PDict (ed(KEY_UNIT \<mapsto> PStr u')))) d"
    by (simp only: unit_of_str)
next
  assume "py_upper u \<notin> {''C'', ''F'', ''%RH'', ''HPA'', ''PPB'', ''PPM'', ''V''}"
  then show "measurement_native_unit_of_measurement (kd(key d \<mapsto> PDict (ed(KEY_UNIT \<mapsto> PStr u)))) d
        = Inr None"
    by (simp add: unit_of_str match_unit_def)
next
  assume "ed KEY_UNIT = None"
  then show "measurement_native_unit_of_measurement (kd(key d \<mapsto> PDict ed)) d = Inr None"
    by (simp add: measurement_native_unit_of_measurement_def dict_get_def dict_get_default_def
        py_upper_def match_unit_def)
qed (simp_all add: unit_of_str py_upper_def upper_char_def match_unit_def)

theorem unit_code_translation_witness:
  "measurement_native_unit_of_measurement
       [''tvoc'' \<mapsto> PDict [''value'' \<mapsto> PInt 605, ''Unit'' \<mapsto> PStr ''ppb'']]
       (describe ''tvoc'' ''Total VOC'')
     = Inr (Some CONCENTRATION_PARTS_PER_BILLION)
   \<and> measurement_native_unit_of_measurement
       [''tvoc'' \<mapsto> PDict [''value'' \<mapsto> PInt 605, ''Unit'' \<mapsto> PStr ''ppb'']]
       (describe ''tvoc'' ''Total VOC'')
     = measurement_native_unit_of_measurement
       [''tvoc'' \<mapsto> PDict [''value'' \<mapsto> PInt 605, ''Unit'' \<mapsto> PStr ''PpB'']]
       (describe ''tvoc'' ''Total VOC'')
   \<and> measurement_native_unit_of_measurement
       [''tvoc'' \<mapsto> PDict [''value'' \<mapsto> PInt 605, ''Unit'' \<mapsto> PStr ''furlong'']]
       (describe ''tvoc'' ''Total VOC'')
     = Inr None
   \<and> measurement_native_unit_of_measurement
       [''tvoc'' \<mapsto> PDict [''value'' \<mapsto> PInt 605]] (describe ''tvoc'' ''Total VOC'')
     = Inr None"
proof -
  have up: "py_upper ''ppb'' = ''PPB''" "py_upper ''PpB'' = ''PPB''"
    "py_upper ''furlong'' = ''FURLONG''"
    by (simp_all add: py_upper_def upper_char_def)
  have k: "key (describe ''tvoc'' ''Total VOC'') = ''tvoc''"
    by (simp add: describe_def)
  show ?thesis
    using unit_code_translation
            [of Map.empty "describe ''tvoc'' ''Total VOC''" "[''value'' \<mapsto> PInt 605]"
                "''ppb''" "''PpB''"]
          unit_code_translation
            [of Map.empty "describe ''tvoc'' ''Total VOC''" "[''value'' \<mapsto> PInt 605]"
                "''PpB''" "''ppb''"]
          unit_code_translation
            [of Map.empty "describe ''tvoc'' ''Total VOC''" "[''value'' \<mapsto> PInt 605]"
                "''furlong''" "''furlong''"]
    by (simp add: up k SPEC_UNIT_TABLE_def KEY_UNIT_def)
qed

text \<open>
  Claim C6. When the raw value of a measurement field is not a nested object (it is
  absent, \<open>None\<close>, a number, a string or a list), the value read is "unknown", the
  unit read is "no unit" and the attributes are exactly \<open>{"Status": None}\<close>. The key
  \<open>Status\<close> is in the attributes for every input; for a nested object it carries the
  object's status, \<open>None\<close> when there is none. The value and the attributes are read by
  functions that cannot raise, and the unit read returns for every malformed value.
\<close>

theorem malformed_measurement_tolerated:
  "(\<not> is_dict (dict_get kd (key d)) \<longrightarrow>
      measurement_native_value kd d = PNone
      \<and> measurement_native_unit_of_measurement kd d = Inr None
      \<and> measurement_extra_state_attributes kd d = [''Status'' \<mapsto> PNone])
   \<and> ''Status'' \<in> dom (measurement_extra_state_attributes kd d)
   \<and> (kd (key d) = Some (PDict ed) \<longrightarrow>
        measurement_extra_state_attributes kd d = [''Status'' \<mapsto> dict_get ed KEY_STATUS])"
  by (cases "dict_get kd (key d)")
     (auto simp: measurement_native_value_def measurement_native_unit_of_measurement_def
        measurement_extra_state_attributes_def dict_get_def)


theorem malformed_measurement_tolerated_witness:
  "measurement_native_value [''humidity'' \<mapsto> PInt 45] (describe ''humidity'' ''Humidity'')
     = PNone
   \<and> measurement_native_unit_of_measurement [''humidity'' \<mapsto> PInt 45]
       (describe ''humidity'' ''Humidity'') = Inr None
   \<and> measurement_extra_state_attributes [''humidity'' \<mapsto> PInt 45]
       (describe ''humidity'' ''Humidity'') = [''Status'' \<mapsto> PNone]
   \<and> measurement_extra_state_attributes
       [''humidity'' \<mapsto> PDict [''value'' \<mapsto> PInt 45, ''status'' \<mapsto> PStr ''Good'']]
       (describe ''humidity'' ''Humidity'') = [''Status'' \<mapsto> PStr ''Good'']"
  using malformed_measurement_tolerated
          [of "[''humidity'' \<mapsto> PInt 45]" "describe ''humidity'' ''Humidity''" Map.empty]
        malformed_measurement_tolerated
          [of "[''humidity'' \<mapsto> PDict [''value'' \<mapsto> PInt 45, ''status'' \<mapsto> PStr ''Good'']]"
              "describe ''humidity'' ''Humidity''"
              "[''value'' \<mapsto> PInt 45, ''status'' \<mapsto> PStr ''Good'']"]
  by (simp add: describe_def dict_get_def KEY_STATUS_def)

section \<open>Properties of the life sensor\<close>






section \<open>Accessors and values of an unexpected type\<close>

text \<open>
  Claim C7 fails on the code. A nested object whose unit code is \<open>None\<close> makes the unit
  accessor raise \<open>AttributeError\<close>, and so does a number under a timestamp key in the
  value accessor of the timestamp sensor.
\<close>

theorem accessors_raise_on_unexpected_types:
  "measurement_native_unit_of_measurement
       [''humidity'' \<mapsto> PDict [''value'' \<mapsto> PInt 45, ''status'' \<mapsto> PStr ''Good'', ''Unit'' \<mapsto> PNone]]
       (describe ''humidity'' ''Humidity'') = Inl AttributeError
   \<and> timestamp_native_value [''last_seen'' \<mapsto> PInt 1718336439] (describe ''last_seen'' ''Last Seen'')
       = Inl AttributeError"
  by (simp add: measurement_native_unit_of_measurement_def timestamp_native_value_def
      dict_get_def dict_get_default_def describe_def KEY_UNIT_def)

section \<open>Properties of the device enumeration\<close>

text \<open>A key is in a dict when it is in the domain of the map.\<close>

lemma has_key_dom: "has_key d k \<longleftrightarrow> k \<in> dom d"
  by (auto simp: has_key_def split: option.splits)

text \<open>The loops compute the closed form.\<close>

lemma timestamp_loop_closed:
  "timestamp_loop eds i dd acc
     = acc @ map (KiddeSensorTimestampEntity i) (filter (\<lambda>ed. has_key dd (key ed)) eds)"
  by (induction eds arbitrary: acc) simp_all

lemma measurement_loop_closed:
  "measurement_loop eds i dd acc
     = acc @ map (KiddeSensorMeasurementEntity i) (filter (\<lambda>ed. has_key dd (key ed)) eds)"
  by (induction eds arbitrary: acc) simp_all

lemma sensor_loop_closed:
  assumes "hashable mb"
  shows "sensor_loop eds i dd mb acc
     = Inr (acc @ map (KiddeSensorEntity i)
              (filter (\<lambda>ed. key ed \<noteq> LIFE_SENSOR_KEY \<and> \<not> skipped mb ed \<and> has_key dd (key ed)) eds))"
  using assms
proof (induction eds arbitrary: acc)
  case Nil
  then show ?case by simp
next
  case (Cons ed eds)
  show ?case
  proof (cases "key ed = LIFE_SENSOR_KEY")
    case True
    then show ?thesis using Cons by simp
  next
    case False
    show ?thesis
    proof (cases "skipped mb ed")
      case True
      then show ?thesis using Cons False
        by (simp add: skipped_def)
    next
      case no: False
      then have "(if key ed \<in> set SKIP_SIMPLE_SENSOR_KEYS
                  then py_set_contains MB_MODELS_DETECT_SERIES mb else Inr False) = Inr False"
        using Cons.prems by (auto simp: skipped_def py_set_contains_def)
      then show ?thesis using Cons False no by simp
    qed
  qed
qed

lemma sensor_loop_unhashable:
  assumes "\<not> hashable mb" "ed \<in> set eds" "key ed \<in> set SKIP_SIMPLE_SENSOR_KEYS"
    "LIFE_SENSOR_KEY \<notin> set SKIP_SIMPLE_SENSOR_KEYS"
  shows "sensor_loop eds i dd mb acc = Inl TypeError"
  using assms
proof (induction eds arbitrary: acc)
  case Nil
  then show ?case by simp
next
  case (Cons a eds)
  show ?case
  proof (cases "key a \<in> set SKIP_SIMPLE_SENSOR_KEYS")
    case True
    then have "key a \<noteq> LIFE_SENSOR_KEY" using Cons.prems by auto
    then show ?thesis using True Cons.prems by (simp add: py_set_contains_def)
  next
    case False
    then have "ed \<in> set eds" using Cons.prems by auto
    then have "sensor_loop eds i dd mb acc' = Inl TypeError" for acc'
      using Cons by blast
    then show ?thesis using False by simp
  qed
qed

lemma setup_device_closed:
  assumes "hashable (dict_get dd KEY_MB_MODEL)"
  shows "setup_device (find (\<lambda>d. key d = LIFE_SENSOR_KEY) SENSOR_DESCRIPTIONS) i dd acc
           = Inr (acc @ device_entities i dd)"
  using assms
  by (simp add: setup_device_def Let_def timestamp_loop_closed measurement_loop_closed
      sensor_loop_closed device_entities_def split: option.splits)

lemma devices_loop_closed:
  assumes "\<forall>(i, dd)\<in>set devices. hashable (dict_get dd KEY_MB_MODEL)"
  shows "devices_loop (find (\<lambda>d. key d = LIFE_SENSOR_KEY) SENSOR_DESCRIPTIONS) devices acc
           = Inr (acc @ all_entities devices)"
  using assms
proof (induction devices arbitrary: acc)
  case Nil
  then show ?case by (simp add: all_entities_def)
next
  case (Cons p devices)
  obtain i dd where p: "p = (i, dd)" by (cases p)
  with Cons.prems have h: "hashable (dict_get dd KEY_MB_MODEL)" by simp
  from Cons.prems have rest: "\<forall>(i, dd)\<in>set devices. hashable (dict_get dd KEY_MB_MODEL)" by simp
  show ?case
    by (simp add: p setup_device_closed [OF h] Cons.IH [OF rest] all_entities_def)
qed

lemma async_setup_entry_closed:
  assumes "\<forall>(i, dd)\<in>set devices. hashable (dict_get dd KEY_MB_MODEL)"
  shows "async_setup_entry devices = Inr (all_entities devices)"
  using devices_loop_closed [OF assms, of "[]"] by (simp add: async_setup_entry_def)

text \<open>Facts about the three lists of descriptions.\<close>

lemma catalog_keys_distinct:
  "distinct (map key (TIMESTAMP_DESCRIPTIONS @ SENSOR_DESCRIPTIONS @ SENSOR_MEASUREMENT_DESCRIPTIONS))"
  by (simp add: TIMESTAMP_DESCRIPTIONS_def SENSOR_DESCRIPTIONS_def
      SENSOR_MEASUREMENT_DESCRIPTIONS_def describe_def LIFE_SENSOR_KEY_def)


lemma life_description_found:
  "\<exists>ld. find (\<lambda>d. key d = LIFE_SENSOR_KEY) SENSOR_DESCRIPTIONS = Some ld
        \<and> ld \<in> set SENSOR_DESCRIPTIONS \<and> key ld = LIFE_SENSOR_KEY"
  by (simp add: SENSOR_DESCRIPTIONS_def describe_def LIFE_SENSOR_KEY_def)

lemma skip_keys_are_sensor_keys:
  "set SKIP_SIMPLE_SENSOR_KEYS \<subseteq> key ` set SENSOR_DESCRIPTIONS"
  "LIFE_SENSOR_KEY \<notin> set SKIP_SIMPLE_SENSOR_KEYS"
  by (simp_all add: SKIP_SIMPLE_SENSOR_KEYS_def SENSOR_DESCRIPTIONS_def describe_def
      LIFE_SENSOR_KEY_def)

text \<open>
  A model that cannot be hashed stops the enumeration: the list of sensor descriptions
  holds a key of the skip set, so the membership test is reached and raises.
\<close>

lemma setup_device_unhashable:
  assumes "\<not> hashable (dict_get dd KEY_MB_MODEL)"
  shows "setup_device ld i dd acc = Inl TypeError"
proof -
  have "SKIP_SIMPLE_SENSOR_KEYS \<noteq> []" by (simp add: SKIP_SIMPLE_SENSOR_KEYS_def)
  then have "hd SKIP_SIMPLE_SENSOR_KEYS \<in> set SKIP_SIMPLE_SENSOR_KEYS" by simp
  moreover from this have "hd SKIP_SIMPLE_SENSOR_KEYS \<in> key ` set SENSOR_DESCRIPTIONS"
    using skip_keys_are_sensor_keys(1) by (rule subsetD [rotated])
  then obtain ed where "ed \<in> set SENSOR_DESCRIPTIONS" "hd SKIP_SIMPLE_SENSOR_KEYS = key ed"
    by (rule imageE)
  ultimately have "sensor_loop SENSOR_DESCRIPTIONS i dd (dict_get dd KEY_MB_MODEL) acc'
                     = Inl TypeError" for acc'
    using assms skip_keys_are_sensor_keys(2) by (intro sensor_loop_unhashable) auto
  then show ?thesis by (simp add: setup_device_def Let_def)
qed

lemma async_setup_entry_raises:
  assumes "\<exists>(i, dd)\<in>set devices. \<not> hashable (dict_get dd KEY_MB_MODEL)"
  shows "async_setup_entry devices = Inl TypeError"
proof -
  have "devices_loop (find (\<lambda>d. key d = LIFE_SENSOR_KEY) SENSOR_DESCRIPTIONS) devices acc
          = Inl TypeError" for acc
    using assms
  proof (induction devices arbitrary: acc)
    case Nil
    then show ?case by simp
  next
    case (Cons p devices)
    obtain i dd where p: "p = (i, dd)" by (cases p)
    show ?case
    proof (cases "hashable (dict_get dd KEY_MB_MODEL)")
      case True
      then have "\<exists>(i, dd)\<in>set devices. \<not> hashable (dict_get dd KEY_MB_MODEL)"
        using Cons.prems p by auto
      then show ?thesis
        using Cons.IH by (simp add: p setup_device_closed [OF True])
    next
      case False
      then show ?thesis by (simp add: p setup_device_unhashable)
    qed
  qed
  then show ?thesis by (simp add: async_setup_entry_def)
qed

lemma catalog_distinct:
  "distinct (TIMESTAMP_DESCRIPTIONS @ SENSOR_DESCRIPTIONS @ SENSOR_MEASUREMENT_DESCRIPTIONS)"
  using catalog_keys_distinct by (simp only: distinct_map)

lemma key_determines_description:
  assumes "F \<in> set (TIMESTAMP_DESCRIPTIONS @ SENSOR_DESCRIPTIONS @ SENSOR_MEASUREMENT_DESCRIPTIONS)"
    and "G \<in> set (TIMESTAMP_DESCRIPTIONS @ SENSOR_DESCRIPTIONS @ SENSOR_MEASUREMENT_DESCRIPTIONS)"
    and "key F = key G"
  shows "F = G"
proof -
  have "inj_on key (set (TIMESTAMP_DESCRIPTIONS @ SENSOR_DESCRIPTIONS @ SENSOR_MEASUREMENT_DESCRIPTIONS))"
    using catalog_keys_distinct by (simp only: distinct_map)
  then show ?thesis using assms(3,1,2) by (rule inj_onD)
qed

lemma catalog_disjoint:
  "F \<in> set TIMESTAMP_DESCRIPTIONS \<Longrightarrow> F \<notin> set SENSOR_DESCRIPTIONS"
  "F \<in> set TIMESTAMP_DESCRIPTIONS \<Longrightarrow> F \<notin> set SENSOR_MEASUREMENT_DESCRIPTIONS"
  "F \<in> set SENSOR_DESCRIPTIONS \<Longrightarrow> F \<notin> set SENSOR_MEASUREMENT_DESCRIPTIONS"
  using catalog_distinct by auto

lemma not_skipped_outside:
  assumes "F \<in> set TIMESTAMP_DESCRIPTIONS \<or> F \<in> set SENSOR_MEASUREMENT_DESCRIPTIONS"
  shows "key F \<notin> set SKIP_SIMPLE_SENSOR_KEYS"
proof
  assume "key F \<in> set SKIP_SIMPLE_SENSOR_KEYS"
  then have "key F \<in> key ` set SENSOR_DESCRIPTIONS"
    using skip_keys_are_sensor_keys(1) by (rule subsetD [rotated])
  then obtain G where G: "G \<in> set SENSOR_DESCRIPTIONS" "key F = key G"
    by (rule imageE)
  have "F = G"
    using assms G by (intro key_determines_description) auto
  then have "F \<in> set SENSOR_DESCRIPTIONS" using G by simp
  then show False using assms catalog_disjoint by blast
qed

lemma entity_of_device:
  "e \<in> set (device_entities i dd) \<Longrightarrow> entity_device_id e = i"
  by (auto simp: device_entities_def split: option.splits if_splits)

lemma in_all_entities:
  "e \<in> set (all_entities devices) \<longleftrightarrow> (\<exists>(i, dd)\<in>set devices. e \<in> set (device_entities i dd))"
  by (auto simp: all_entities_def)

lemma device_data_unique:
  assumes "distinct (map fst devices)" "(i, dd) \<in> set devices" "(i, dd') \<in> set devices"
  shows "dd' = dd"
  using assms by (rule eq_key_imp_eq_value [symmetric])

lemma entities_of_one_device:
  assumes "distinct (map fst devices)" "(i, dd) \<in> set devices"
  shows "(e \<in> set (all_entities devices) \<and> entity_device_id e = i) \<longleftrightarrow> e \<in> set (device_entities i dd)"
proof
  assume l: "e \<in> set (all_entities devices) \<and> entity_device_id e = i"
  then have "\<exists>(j, dd')\<in>set devices. e \<in> set (device_entities j dd')"
    by (simp only: in_all_entities)
  then obtain j dd' where j: "(j, dd') \<in> set devices" "e \<in> set (device_entities j dd')"
    by blast
  from j(2) have "entity_device_id e = j" by (rule entity_of_device)
  with l have ji: "j = i" by simp
  with j(1) have "(i, dd') \<in> set devices" by simp
  with assms have "dd' = dd" by (rule device_data_unique)
  with j(2) ji show "e \<in> set (device_entities i dd)" by simp
next
  assume r: "e \<in> set (device_entities i dd)"
  then have "entity_device_id e = i" by (rule entity_of_device)
  moreover have "\<exists>(j, dd')\<in>set devices. e \<in> set (device_entities j dd')"
    using assms(2) r by blast
  ultimately show "e \<in> set (all_entities devices) \<and> entity_device_id e = i"
    by (simp only: in_all_entities)
qed

lemma description_in_device_entities:
  assumes "find (\<lambda>d. key d = LIFE_SENSOR_KEY) SENSOR_DESCRIPTIONS = Some ld"
  shows "(\<exists>e\<in>set (device_entities i dd). entity_description e = F)
     \<longleftrightarrow> (F \<in> set TIMESTAMP_DESCRIPTIONS \<and> has_key dd (key F))
         \<or> (has_key dd LIFE_SENSOR_KEY \<and> F = ld)
         \<or> (F \<in> set SENSOR_DESCRIPTIONS \<and> key F \<noteq> LIFE_SENSOR_KEY
             \<and> \<not> skipped (dict_get dd KEY_MB_MODEL) F \<and> has_key dd (key F))
         \<or> (F \<in> set SENSOR_MEASUREMENT_DESCRIPTIONS \<and> has_key dd (key F))"
  by (auto simp: device_entities_def assms bex_Un)

lemma device_has_description:
  assumes F: "F \<in> set (TIMESTAMP_DESCRIPTIONS @ SENSOR_DESCRIPTIONS @ SENSOR_MEASUREMENT_DESCRIPTIONS)"
  shows "(\<exists>e\<in>set (device_entities i dd). entity_description e = F)
         \<longleftrightarrow> has_key dd (key F) \<and> \<not> skipped (dict_get dd KEY_MB_MODEL) F"
proof -
  obtain ld where ld: "find (\<lambda>d. key d = LIFE_SENSOR_KEY) SENSOR_DESCRIPTIONS = Some ld"
    "ld \<in> set SENSOR_DESCRIPTIONS" "key ld = LIFE_SENSOR_KEY"
    using life_description_found by blast
  have life_unique: "G = ld" if "G \<in> set SENSOR_DESCRIPTIONS" "key G = LIFE_SENSOR_KEY" for G
    using that ld by (intro key_determines_description) auto
  have not_skipped_life: "\<not> skipped mb ld" for mb
    using ld skip_keys_are_sensor_keys(2) by (simp add: skipped_def)
  note iff = description_in_device_entities [OF ld(1), of i dd F]
  consider (ts) "F \<in> set TIMESTAMP_DESCRIPTIONS" | (sd) "F \<in> set SENSOR_DESCRIPTIONS"
    | (md) "F \<in> set SENSOR_MEASUREMENT_DESCRIPTIONS"
    using F by auto
  then show ?thesis
  proof cases
    case ts
    have "\<not> skipped (dict_get dd KEY_MB_MODEL) F"
      using ts not_skipped_outside by (simp add: skipped_def)
    moreover have "F \<noteq> ld" using ts ld catalog_disjoint by blast
    moreover have "F \<notin> set SENSOR_DESCRIPTIONS" "F \<notin> set SENSOR_MEASUREMENT_DESCRIPTIONS"
      using ts catalog_disjoint by blast+
    ultimately show ?thesis unfolding iff using ts by blast
  next
    case md
    have "\<not> skipped (dict_get dd KEY_MB_MODEL) F"
      using md not_skipped_outside by (simp add: skipped_def)
    moreover have "F \<noteq> ld" using md ld catalog_disjoint by blast
    moreover have "F \<notin> set TIMESTAMP_DESCRIPTIONS" "F \<notin> set SENSOR_DESCRIPTIONS"
      using md catalog_disjoint by blast+
    ultimately show ?thesis unfolding iff using md by blast
  next
    case sd
    have nts: "F \<notin> set TIMESTAMP_DESCRIPTIONS" "F \<notin> set SENSOR_MEASUREMENT_DESCRIPTIONS"
      using sd catalog_disjoint by blast+
    show ?thesis
    proof (cases "key F = LIFE_SENSOR_KEY")
      case True
      then have "F = ld" using sd life_unique by simp
      then show ?thesis unfolding iff
        using nts ld not_skipped_life by auto
    next
      case False
      then have "F \<noteq> ld" using ld by auto
      then show ?thesis unfolding iff
        using nts sd False by blast
    qed
  qed
qed

lemma sensors_for_description:
  assumes "\<forall>(i, dd)\<in>set devices. hashable (dict_get dd KEY_MB_MODEL)"
    and "distinct (map fst devices)"
    and "(i, dd) \<in> set devices"
    and "F \<in> set (TIMESTAMP_DESCRIPTIONS @ SENSOR_DESCRIPTIONS @ SENSOR_MEASUREMENT_DESCRIPTIONS)"
  shows "async_setup_entry devices = Inr (all_entities devices)"
    and "(\<exists>e\<in>set (all_entities devices). entity_device_id e = i \<and> entity_description e = F)
           \<longleftrightarrow> has_key dd (key F) \<and> \<not> skipped (dict_get dd KEY_MB_MODEL) F"
proof -
  show "async_setup_entry devices = Inr (all_entities devices)"
    using assms(1) by (rule async_setup_entry_closed)
  have "(\<exists>e\<in>set (all_entities devices). entity_device_id e = i \<and> entity_description e = F)
          \<longleftrightarrow> (\<exists>e\<in>set (device_entities i dd). entity_description e = F)"
    using entities_of_one_device [OF assms(2,3)] by blast
  then show "(\<exists>e\<in>set (all_entities devices). entity_device_id e = i \<and> entity_description e = F)
           \<longleftrightarrow> has_key dd (key F) \<and> \<not> skipped (dict_get dd KEY_MB_MODEL) F"
    using device_has_description [OF assms(4), of i dd] by simp
qed

lemma entity_description_in_catalog:
  assumes "e \<in> set (device_entities i dd)"
  shows "entity_description e
           \<in> set (TIMESTAMP_DESCRIPTIONS @ SENSOR_DESCRIPTIONS @ SENSOR_MEASUREMENT_DESCRIPTIONS)"
proof -
  obtain ld where ld: "find (\<lambda>d. key d = LIFE_SENSOR_KEY) SENSOR_DESCRIPTIONS = Some ld"
    "ld \<in> set SENSOR_DESCRIPTIONS"
    using life_description_found by blast
  show ?thesis
    using assms ld(2) by (auto simp: device_entities_def ld(1) split: if_splits)
qed

lemma sensors_for_key:
  assumes "distinct (map fst devices)"
    and "(i, dd) \<in> set devices"
    and "F \<in> set (TIMESTAMP_DESCRIPTIONS @ SENSOR_DESCRIPTIONS @ SENSOR_MEASUREMENT_DESCRIPTIONS)"
    and "e \<in> set (all_entities devices)" "entity_device_id e = i"
    and "key (entity_description e) = key F"
  shows "entity_description e = F"
proof -
  have "e \<in> set (device_entities i dd)"
    using entities_of_one_device [OF assms(1,2), of e] assms(4,5) by simp
  then have "entity_description e
           \<in> set (TIMESTAMP_DESCRIPTIONS @ SENSOR_DESCRIPTIONS @ SENSOR_MEASUREMENT_DESCRIPTIONS)"
    by (rule entity_description_in_catalog)
  then show ?thesis using assms(3,6) by (rule key_determines_description)
qed

lemma detect_series_iff:
  "hashable v \<Longrightarrow>
     py_set_contains MB_MODELS_DETECT_SERIES v = Inr True
       \<longleftrightarrow> py_eq (PInt 48) v \<or> py_eq (PInt 46) v"
  by (simp add: py_set_contains_def MB_MODELS_DETECT_SERIES_def)

text \<open>
  Claim C1. Let the model of every device be absent or a value that can be looked up in a
  set (anything but a list or a nested object). Then the enumeration returns, and for
  every device and every description \<open>F\<close> of the three lists there is an entity of
  that device with description \<open>F\<close> if and only if the key of \<open>F\<close> is in the raw data
  of the device and the skip rule does not apply, that is, not both: the key is one of
  the two skipped keys and the model is in the set of the DETECT models.
\<close>

theorem enumeration_presence_iff:
  assumes "\<forall>(i, dd)\<in>set devices. hashable (dict_get dd KEY_MB_MODEL)"
    and "distinct (map fst devices)"
    and "(i, dd) \<in> set devices"
    and "F \<in> set (TIMESTAMP_DESCRIPTIONS @ SENSOR_DESCRIPTIONS @ SENSOR_MEASUREMENT_DESCRIPTIONS)"
  shows "\<exists>sensors. async_setup_entry devices = Inr sensors
           \<and> ((\<exists>e\<in>set sensors. entity_device_id e = i \<and> entity_description e = F)
                \<longleftrightarrow> (has_key dd (key F)
                     \<and> \<not> (key F \<in> set SKIP_SIMPLE_SENSOR_KEYS
                          \<and> py_set_contains MB_MODELS_DETECT_SERIES (dict_get dd KEY_MB_MODEL)
                              = Inr True)))"
  using sensors_for_description [OF assms] by (simp add: skipped_def)

theorem enumeration_presence_iff_witness:
  "(\<exists>sensors. async_setup_entry example_devices = Inr sensors
      \<and> (\<exists>e\<in>set sensors. entity_device_id e = 1
            \<and> entity_description e
                = (describe ''last_seen'' ''Last Seen'')
                    \<lparr>icon := Some ''mdi:home-clock'', device_class := Some TIMESTAMP\<rparr>))
   \<and> (\<exists>sensors. async_setup_entry example_devices = Inr sensors
      \<and> \<not> (\<exists>e\<in>set sensors. entity_device_id e = 2
            \<and> entity_description e
                = (describe ''last_seen'' ''Last Seen'')
                    \<lparr>icon := Some ''mdi:home-clock'', device_class := Some TIMESTAMP\<rparr>))"
proof -
  let ?F = "(describe ''last_seen'' ''Last Seen'')
              \<lparr>icon := Some ''mdi:home-clock'', device_class := Some TIMESTAMP\<rparr>"
  have h: "\<forall>(i, dd)\<in>set example_devices. hashable (dict_get dd KEY_MB_MODEL)"
    by (simp add: example_devices_def example_detect_device_def example_other_device_def
        dict_get_def KEY_MB_MODEL_def)
  have d: "distinct (map fst example_devices)"
    by (simp add: example_devices_def)
  have m: "(1, example_detect_device) \<in> set example_devices"
    "(2, example_other_device) \<in> set example_devices"
    by (simp_all add: example_devices_def)
  have F: "?F \<in> set (TIMESTAMP_DESCRIPTIONS @ SENSOR_DESCRIPTIONS
                        @ SENSOR_MEASUREMENT_DESCRIPTIONS)"
    by (simp add: TIMESTAMP_DESCRIPTIONS_def)
  have k: "has_key example_detect_device (key ?F)" "\<not> has_key example_other_device (key ?F)"
    "key ?F \<notin> set SKIP_SIMPLE_SENSOR_KEYS"
    by (simp_all add: has_key_def example_detect_device_def example_other_device_def
        describe_def SKIP_SIMPLE_SENSOR_KEYS_def)
  show ?thesis
    using enumeration_presence_iff [OF h d m(1) F] enumeration_presence_iff [OF h d m(2) F] k
    by simp
qed

text \<open>
  Claim C2. Under the same condition on the models: a device whose model is 46 or 48 gets
  no entity with the key \<open>batt_volt\<close> or \<open>battery_voltage\<close>, whether the key is in its raw
  data or not; a device whose model is absent or any other value (one that is equal to
  neither 48 nor 46) gets an entity with that key when the key is in its raw data.
\<close>

theorem detect_series_skips_voltage:
  assumes "\<forall>(i, dd)\<in>set devices. hashable (dict_get dd KEY_MB_MODEL)"
    and "distinct (map fst devices)"
    and "(i, dd) \<in> set devices"
    and "k = ''batt_volt'' \<or> k = ''battery_voltage''"
  shows "\<exists>sensors. async_setup_entry devices = Inr sensors
           \<and> (dd KEY_MB_MODEL = Some (PInt 46) \<or> dd KEY_MB_MODEL = Some (PInt 48) \<longrightarrow>
                \<not> (\<exists>e\<in>set sensors. entity_device_id e = i \<and> key (entity_description e) = k))
           \<and> (\<not> py_eq (PInt 48) (dict_get dd KEY_MB_MODEL)
                \<and> \<not> py_eq (PInt 46) (dict_get dd KEY_MB_MODEL) \<and> has_key dd k \<longrightarrow>
                (\<exists>e\<in>set sensors. entity_device_id e = i \<and> key (entity_description e) = k))"
proof -
  have skip: "k \<in> set SKIP_SIMPLE_SENSOR_KEYS"
    using assms(4) by (auto simp: SKIP_SIMPLE_SENSOR_KEYS_def)
  then have "k \<in> key ` set SENSOR_DESCRIPTIONS"
    using skip_keys_are_sensor_keys(1) by (rule subsetD [rotated])
  then obtain F where F: "F \<in> set SENSOR_DESCRIPTIONS" "k = key F" by (rule imageE)
  then have cat: "F \<in> set (TIMESTAMP_DESCRIPTIONS @ SENSOR_DESCRIPTIONS
                              @ SENSOR_MEASUREMENT_DESCRIPTIONS)" by simp
  have h: "hashable (dict_get dd KEY_MB_MODEL)" using assms(1,3) by blast
  note run = sensors_for_description [OF assms(1,2,3) cat]
  have by_key: "(\<exists>e\<in>set (all_entities devices). entity_device_id e = i
                    \<and> key (entity_description e) = k)
                 \<longleftrightarrow> has_key dd k \<and> \<not> skipped (dict_get dd KEY_MB_MODEL) F"
    using run(2) sensors_for_key [OF assms(2,3) cat] F(2) by blast
  have detect: "skipped (dict_get dd KEY_MB_MODEL) F
                  \<longleftrightarrow> py_eq (PInt 48) (dict_get dd KEY_MB_MODEL)
                       \<or> py_eq (PInt 46) (dict_get dd KEY_MB_MODEL)"
    using skip F(2) detect_series_iff [OF h] by (simp add: skipped_def)
  have d1: "py_eq (PInt 48) (dict_get dd KEY_MB_MODEL) \<or> py_eq (PInt 46) (dict_get dd KEY_MB_MODEL)"
    if "dd KEY_MB_MODEL = Some (PInt 46) \<or> dd KEY_MB_MODEL = Some (PInt 48)"
    using that by (auto simp: dict_get_def)
  show ?thesis
    unfolding run(1) using by_key detect d1 by auto
qed

theorem detect_series_skips_voltage_witness:
  "(\<exists>sensors. async_setup_entry example_devices = Inr sensors
      \<and> \<not> (\<exists>e\<in>set sensors. entity_device_id e = 1
                \<and> key (entity_description e) = ''batt_volt''))
   \<and> (\<exists>sensors. async_setup_entry example_devices = Inr sensors
      \<and> (\<exists>e\<in>set sensors. entity_device_id e = 2
                \<and> key (entity_description e) = ''batt_volt''))"
proof -
  have h: "\<forall>(i, dd)\<in>set example_devices. hashable (dict_get dd KEY_MB_MODEL)"
    by (simp add: example_devices_def example_detect_device_def example_other_device_def
        dict_get_def KEY_MB_MODEL_def)
  have d: "distinct (map fst example_devices)"
    by (simp add: example_devices_def)
  have m: "(1, example_detect_device) \<in> set example_devices"
    "(2, example_other_device) \<in> set example_devices"
    by (simp_all add: example_devices_def)
  have k: "''batt_volt'' = ''batt_volt'' \<or> ''batt_volt'' = ''battery_voltage''"
    by simp
  have v: "example_detect_device KEY_MB_MODEL = Some (PInt 46)"
    "\<not> py_eq (PInt 48) (dict_get example_other_device KEY_MB_MODEL)"
    "\<not> py_eq (PInt 46) (dict_get example_other_device KEY_MB_MODEL)"
    "has_key example_other_device ''batt_volt''"
    by (simp_all add: has_key_def dict_get_def example_detect_device_def
        example_other_device_def KEY_MB_MODEL_def)
  have "\<exists>sensors. async_setup_entry example_devices = Inr sensors
      \<and> \<not> (\<exists>e\<in>set sensors. entity_device_id e = 1
                \<and> key (entity_description e) = ''batt_volt'')"
    using detect_series_skips_voltage [OF h d m(1) k] v(1) by blast
  moreover have "\<exists>sensors. async_setup_entry example_devices = Inr sensors
      \<and> (\<exists>e\<in>set sensors. entity_device_id e = 2
                \<and> key (entity_description e) = ''batt_volt'')"
    using detect_series_skips_voltage [OF h d m(2) k] v(2,3,4) by blast
  ultimately show ?thesis by (rule conjI)
qed

text \<open>Facts for the absence of duplicates.\<close>

lemma filter_unique:
  assumes "distinct (map f xs)" "x \<in> set xs"
  shows "filter (\<lambda>y. f y = f x) xs = [x]"
  using assms
proof (induction xs)
  case Nil
  then show ?case by simp
next
  case (Cons a xs)
  show ?case
  proof (cases "a = x")
    case True
    then have "f x \<notin> f ` set xs" using Cons.prems(1) by simp
    then have "\<forall>y\<in>set xs. f y \<noteq> f x" by (metis imageI)
    then have "filter (\<lambda>y. f y = f x) xs = []" by (simp add: filter_empty_conv)
    then show ?thesis using True by simp
  next
    case False
    then have "x \<in> set xs" using Cons.prems(2) by simp
    then have "f x \<in> f ` set xs" by (rule imageI)
    moreover have "f a \<notin> f ` set xs" using Cons.prems(1) by simp
    ultimately have "f a \<noteq> f x" by metis
    then show ?thesis using Cons \<open>x \<in> set xs\<close> by simp
  qed
qed

lemma device_entities_keys_distinct:
  "distinct (map (\<lambda>e. key (entity_description e)) (device_entities i dd))"
proof -
  obtain ld where ld: "find (\<lambda>d. key d = LIFE_SENSOR_KEY) SENSOR_DESCRIPTIONS = Some ld"
    "ld \<in> set SENSOR_DESCRIPTIONS" "key ld = LIFE_SENSOR_KEY"
    using life_description_found by blast
  let ?ts = "filter (\<lambda>ed. has_key dd (key ed)) TIMESTAMP_DESCRIPTIONS"
  let ?sd = "filter (\<lambda>ed. key ed \<noteq> LIFE_SENSOR_KEY
                       \<and> \<not> skipped (dict_get dd KEY_MB_MODEL) ed
                       \<and> has_key dd (key ed)) SENSOR_DESCRIPTIONS"
  let ?md = "filter (\<lambda>ed. has_key dd (key ed)) SENSOR_MEASUREMENT_DESCRIPTIONS"
  let ?life = "if has_key dd LIFE_SENSOR_KEY then [ld] else []"
  have keys: "map (\<lambda>e. key (entity_description e)) (device_entities i dd)
                = map key ?ts @ map key ?life @ map key ?sd @ map key ?md"
    by (simp add: device_entities_def ld(1) comp_def)
  have d: "distinct (map key TIMESTAMP_DESCRIPTIONS)" "distinct (map key SENSOR_DESCRIPTIONS)"
    "distinct (map key SENSOR_MEASUREMENT_DESCRIPTIONS)"
    "key ` set TIMESTAMP_DESCRIPTIONS \<inter> key ` set SENSOR_DESCRIPTIONS = {}"
    "key ` set TIMESTAMP_DESCRIPTIONS \<inter> key ` set SENSOR_MEASUREMENT_DESCRIPTIONS = {}"
    "key ` set SENSOR_DESCRIPTIONS \<inter> key ` set SENSOR_MEASUREMENT_DESCRIPTIONS = {}"
    using catalog_keys_distinct by (auto simp: Int_Un_distrib)
  have "distinct (map key ?ts)" "distinct (map key ?sd)" "distinct (map key ?md)"
    using d(1,2,3) by (simp_all add: distinct_map_filter)
  moreover have "LIFE_SENSOR_KEY \<in> key ` set SENSOR_DESCRIPTIONS"
    using ld(2,3) by force
  then have "LIFE_SENSOR_KEY \<notin> key ` set ?ts" "LIFE_SENSOR_KEY \<notin> key ` set ?md"
    "LIFE_SENSOR_KEY \<notin> key ` set ?sd"
    using d(4,6) by auto
  moreover have "key ` set ?ts \<inter> key ` set ?sd = {}" "key ` set ?ts \<inter> key ` set ?md = {}"
    "key ` set ?sd \<inter> key ` set ?md = {}"
    using d(4,5,6) by auto
  ultimately show ?thesis
    unfolding keys by (auto simp: ld(3))
qed

lemma all_entities_distinct:
  assumes "distinct (map fst devices)"
  shows "distinct (map (\<lambda>e. (entity_device_id e, key (entity_description e)))
                    (all_entities devices))"
  using assms
proof (induction devices)
  case Nil
  then show ?case by (simp add: all_entities_def)
next
  case (Cons p devices)
  obtain i dd where p: "p = (i, dd)" by (cases p)
  let ?f = "\<lambda>e. (entity_device_id e, key (entity_description e))"
  have split: "all_entities (p # devices) = device_entities i dd @ all_entities devices"
    by (simp add: all_entities_def p)
  have "map ?f (device_entities i dd)
          = map (Pair i) (map (\<lambda>e. key (entity_description e)) (device_entities i dd))"
    by (simp add: entity_of_device)
  then have here: "distinct (map ?f (device_entities i dd))"
    using device_entities_keys_distinct [of i dd] by (simp add: distinct_map inj_on_def)
  have rest: "distinct (map ?f (all_entities devices))"
    using Cons by simp
  have "entity_device_id e \<noteq> i" if "e \<in> set (all_entities devices)" for e
  proof -
    from that obtain j dd' where j: "(j, dd') \<in> set devices" "e \<in> set (device_entities j dd')"
      by (auto simp: in_all_entities)
    then have "entity_device_id e = j" using entity_of_device by blast
    moreover have "j \<noteq> i" using j(1) Cons.prems p by force
    ultimately show ?thesis by simp
  qed
  then have "?f ` set (device_entities i dd) \<inter> ?f ` set (all_entities devices) = {}"
    using entity_of_device by fastforce
  then show ?case unfolding split using here rest by simp
qed

text \<open>
  Claim C9. Under the same condition on the models, and with the devices under distinct
  identifiers, the enumeration returns a list in which no two entities have the same
  device and the same key. For every device whose raw data have the life key, exactly one
  entity of the list has that device and that key, and it is the life entity; the loop
  over the sensor descriptions adds none.
\<close>

theorem enumeration_no_duplicates:
  assumes "\<forall>(i, dd)\<in>set devices. hashable (dict_get dd KEY_MB_MODEL)"
    and "distinct (map fst devices)"
  shows "\<exists>sensors. async_setup_entry devices = Inr sensors
           \<and> distinct (map (\<lambda>e. (entity_device_id e, key (entity_description e))) sensors)
           \<and> (\<forall>(i, dd)\<in>set devices. has_key dd LIFE_SENSOR_KEY \<longrightarrow>
                (\<exists>ld\<in>set SENSOR_DESCRIPTIONS.
                   filter (\<lambda>e. entity_device_id e = i
                                \<and> key (entity_description e) = LIFE_SENSOR_KEY) sensors
                     = [KiddeSensorLifeEntity i ld]))"
proof -
  obtain ld where ld: "find (\<lambda>d. key d = LIFE_SENSOR_KEY) SENSOR_DESCRIPTIONS = Some ld"
    "ld \<in> set SENSOR_DESCRIPTIONS" "key ld = LIFE_SENSOR_KEY"
    using life_description_found by blast
  let ?f = "\<lambda>e. (entity_device_id e, key (entity_description e))"
  have dist: "distinct (map ?f (all_entities devices))"
    using assms(2) by (rule all_entities_distinct)
  have life: "filter (\<lambda>e. entity_device_id e = i \<and> key (entity_description e) = LIFE_SENSOR_KEY)
                (all_entities devices) = [KiddeSensorLifeEntity i ld]"
    if "(i, dd) \<in> set devices" "has_key dd LIFE_SENSOR_KEY" for i dd
  proof -
    have "KiddeSensorLifeEntity i ld \<in> set (device_entities i dd)"
      using that(2) by (simp add: device_entities_def ld(1))
    then have "KiddeSensorLifeEntity i ld \<in> set (all_entities devices)"
      using that(1) by (auto simp: in_all_entities)
    with dist have "filter (\<lambda>y. ?f y = ?f (KiddeSensorLifeEntity i ld)) (all_entities devices)
                      = [KiddeSensorLifeEntity i ld]"
      by (rule filter_unique)
    then show ?thesis by (simp add: ld(3))
  qed
  show ?thesis
    unfolding async_setup_entry_closed [OF assms(1)]
    using dist life ld(2) by auto
qed

theorem enumeration_no_duplicates_witness:
  "\<exists>sensors. async_setup_entry example_devices = Inr sensors
      \<and> distinct (map (\<lambda>e. (entity_device_id e, key (entity_description e))) sensors)
      \<and> (\<exists>ld\<in>set SENSOR_DESCRIPTIONS.
            filter (\<lambda>e. entity_device_id e = 1
                         \<and> key (entity_description e) = LIFE_SENSOR_KEY) sensors
              = [KiddeSensorLifeEntity 1 ld])
      \<and> (\<exists>ld\<in>set SENSOR_DESCRIPTIONS.
            filter (\<lambda>e. entity_device_id e = 2
                         \<and> key (entity_description e) = LIFE_SENSOR_KEY) sensors
              = [KiddeSensorLifeEntity 2 ld])"
proof -
  have h: "\<forall>(i, dd)\<in>set example_devices. hashable (dict_get dd KEY_MB_MODEL)"
    by (simp add: example_devices_def example_detect_device_def example_other_device_def
        dict_get_def KEY_MB_MODEL_def)
  have d: "distinct (map fst example_devices)"
    by (simp add: example_devices_def)
  have k: "has_key example_detect_device LIFE_SENSOR_KEY"
    "has_key example_other_device LIFE_SENSOR_KEY"
    by (simp_all add: has_key_def example_detect_device_def example_other_device_def
        LIFE_SENSOR_KEY_def)
  have s: "set example_devices = {(1, example_detect_device), (2, example_other_device)}"
    by (simp add: example_devices_def)
  show ?thesis
    using enumeration_no_duplicates [OF h d] k unfolding s by simp
qed

end
